theory Spec2Isabelle
  imports Main
begin

section \<open>JavaScript values and thrown errors\<close>

text \<open>
  The values a property of an update object can hold. Reading a property that an
  object does not have gives \<open>JUndefined\<close>; reading a property of \<open>undefined\<close>
  itself throws a TypeError.
\<close>

datatype jsval = JUndefined | JNull | JBool bool | JNumber int | JString string

datatype error =
    TypeError string \<comment> \<open>thrown by the language: a property read on \<open>undefined\<close>\<close>
  | Thrown string \<comment> \<open>thrown by a library call\<close>

definition property :: "(string \<rightharpoonup> jsval) \<Rightarrow> string \<Rightarrow> jsval" where
  "property obj k = (case obj k of None \<Rightarrow> JUndefined | Some v \<Rightarrow> v)"

section \<open>The bcrypt module\<close>

text \<open>
  \<open>bcrypt\<close> is a third-party module (\<open>require('bcrypt')\<close>), not code of the
  repository. The model takes it as a parameter \<open>bc\<close> holding the three functions
  Account.js calls. \<open>genSaltSync rounds entropy\<close> is the salt drawn for a cost factor
  from the random bytes \<open>entropy\<close>; \<open>hashSync data salt\<close> returns the hash string
  or throws; \<open>compareSync candidate hash\<close> is the boolean the library answers.
\<close>

record bcrypt =
  genSaltSync :: "nat \<Rightarrow> nat \<Rightarrow> string"
  hashSync :: "jsval \<Rightarrow> string \<Rightarrow> error + string"
  compareSync :: "string \<Rightarrow> string \<Rightarrow> bool"

section \<open>App/Models/Account.js\<close>

type_synonym ObjectId = nat

record Account =
  Purchase :: "ObjectId list"
  Roles :: "ObjectId list"
  Name :: string
  Admin :: bool
  Email :: string
  Password :: string
  Remember :: "string option" \<comment> \<open>\<open>default: null\<close>\<close>

text \<open>
  \<open>Account.pre('save', ...)\<close>:
  \<open>this.Password = bcrypt.hashSync(this.Password, bcrypt.genSaltSync(15)); Next();\<close>
  The result is the document that goes on to be written, or the error thrown in the hook.
\<close>

definition pre_save :: "bcrypt \<Rightarrow> nat \<Rightarrow> Account \<Rightarrow> error + Account" where
  "pre_save bc entropy this =
     (case hashSync bc (JString (Password this)) (genSaltSync bc 15 entropy) of
        Inl e \<Rightarrow> Inl e
      | Inr h \<Rightarrow> Inr (this\<lparr>Password := h\<rparr>))"

text \<open>
  The update object of a query, as \<open>this.getUpdate()\<close> returns it: its \<open>$set\<close>
  property is an object or is missing. Other operators are carried along untouched.
\<close>

record update =
  dollar_set :: "(string \<rightharpoonup> jsval) option"

text \<open>
  \<open>Account.pre('findOneAndUpdate', ...)\<close>:
  \<open>this.getUpdate().$set.Password =
     bcrypt.hashSync(this.getUpdate().$set.Password, bcrypt.genSaltSync(15)); Next();\<close>
  There is no guard: \<open>$set.Password\<close> is read whatever the update holds.
\<close>

definition pre_findOneAndUpdate :: "bcrypt \<Rightarrow> nat \<Rightarrow> update \<Rightarrow> error + update" where
  "pre_findOneAndUpdate bc entropy upd =
     (case dollar_set upd of
        None \<Rightarrow> Inl (TypeError ''Cannot read property Password of undefined'')
      | Some s \<Rightarrow>
          (case hashSync bc (property s ''Password'') (genSaltSync bc 15 entropy) of
             Inl e \<Rightarrow> Inl e
           | Inr h \<Rightarrow> Inr (upd\<lparr>dollar_set := Some (s(''Password'' \<mapsto> JString h))\<rparr>)))"

text \<open>\<open>ComparePassword\<close>: \<open>return bcrypt.compareSync(Password, this.Password);\<close>\<close>

definition ComparePassword :: "bcrypt \<Rightarrow> Account \<Rightarrow> string \<Rightarrow> bool" where
  "ComparePassword bc this candidate = compareSync bc candidate (Password this)"

text \<open>\<open>IsVip\<close>: \<open>return true;\<close>\<close>

definition IsVip :: "Account \<Rightarrow> bool" where
  "IsVip this = True"

text \<open>
  What the asynchronous \<open>this.updateOne(...)\<close> reports to its callback: the write
  reached the database, or it failed with an error.
\<close>

datatype write_result = Written | WriteError string

text \<open>
  \<open>Response.cookie(name, value, options)\<close> of express adds one cookie to the response.
  For a signed cookie it needs the secret that cookie-parser left on the request
  (Server.js: \<open>App.use(cookieParser(process.env.COOKIE_SECRET_KEY))\<close>), and throws
  when there is none: \<open>if (signed && !secret) throw new Error(...)\<close>. \<open>req_secret\<close>
  is that secret; it is missing when the variable is not set, and an empty string
  counts as missing.
\<close>

record cookie_options =
  maxAge :: int
  httpOnly :: bool
  signed :: bool

record response =
  req_secret :: "string option"
  cookies :: "(string \<times> string \<times> cookie_options) list"

definition has_secret :: "response \<Rightarrow> bool" where
  "has_secret res = (case req_secret res of None \<Rightarrow> False | Some k \<Rightarrow> k \<noteq> [])"

definition res_cookie :: "string \<Rightarrow> string \<Rightarrow> cookie_options \<Rightarrow> response \<Rightarrow> error + response" where
  "res_cookie name v opts res =
     (if signed opts \<and> \<not> has_secret res
      then Inl (Thrown ''cookieParser(secret) required for signed cookies'')
      else Inr (res\<lparr>cookies := cookies res @ [(name, v, opts)]\<rparr>))"

text \<open>
  Modelled from the spec: \<open>App/Helpers/Unique\<close> (\<open>Unique.String\<close>) is not among the
  sources. The spec (4.2) has it "generate a fresh random token of fixed length from an
  unambiguous character set": \<open>n\<close> characters, each picked from \<open>alphabet\<close> by the
  next number of the random source \<open>rnd\<close>, read from position \<open>pos\<close> on. The
  result is the token and the position after it.
\<close>

definition Unique_String :: "string \<Rightarrow> (nat \<Rightarrow> nat) \<Rightarrow> nat \<Rightarrow> nat \<Rightarrow> string \<times> nat" where
  "Unique_String alphabet rnd n pos =
     (map (\<lambda>i. alphabet ! (rnd (pos + i) mod length alphabet)) [0..<n], pos + n)"

text \<open>
  Modelled from the spec: \<open>App/Helpers/Logger\<close> (\<open>Logger.Analyze\<close>) is not among the
  sources. The spec (7) has storage faults "logged centrally": the call adds the tag
  and the error to the log and returns.
\<close>

definition Logger_Analyze :: "string \<Rightarrow> string \<Rightarrow> (string \<times> string) list \<Rightarrow> (string \<times> string) list" where
  "Logger_Analyze tag err lg = lg @ [(tag, err)]"

text \<open>
  What \<open>SetRemember\<close> acts on besides the response: the account's record in the
  database, the central log, and how far the random source has been read.
\<close>

record world =
  account_record :: Account
  logged :: "(string \<times> string) list"
  drawn :: nat

text \<open>
  \<open>SetRemember\<close>:
  \<open>const Token = Unique.String(30);
   Response.cookie('Remember', Token,
     { maxAge: 1000 * 60 * 60 * 24 * 30, httpOnly: true, signed: true });
   this.updateOne({ Remember: Token },
     Error => { if (Error) return Logger.Analyze('DBError', Error); });\<close>
  The token is generated first. If \<open>Response.cookie\<close> throws, the call ends there:
  no update is sent. Otherwise the cookie is set before the update is sent, and the
  callback only logs. \<open>result\<close> is what the update reports when it is sent. The result
  is the error thrown or the response, and the world after the call.
\<close>

definition SetRemember ::
  "string \<Rightarrow> (nat \<Rightarrow> nat) \<Rightarrow> write_result \<Rightarrow> response \<Rightarrow> world \<Rightarrow> (error + response) \<times> world" where
  "SetRemember alphabet rnd result Response w =
     (let (Token, pos) = Unique_String alphabet rnd 30 (drawn w);
          w' = w\<lparr>drawn := pos\<rparr>
      in case res_cookie ''Remember'' Token
             \<lparr>maxAge = 1000 * 60 * 60 * 24 * 30, httpOnly = True, signed = True\<rparr> Response of
           Inl thrown \<Rightarrow> (Inl thrown, w')
         | Inr Response' \<Rightarrow>
             (Inr Response',
              (case result of
                 Written \<Rightarrow> w'\<lparr>account_record := (account_record w')\<lparr>Remember := Some Token\<rparr>\<rparr>
               | WriteError e \<Rightarrow> w'\<lparr>logged := Logger_Analyze ''DBError'' e (logged w')\<rparr>)))"

text \<open>The token a call of \<open>SetRemember\<close> generates in world \<open>w\<close>.\<close>

definition issued_token :: "string \<Rightarrow> (nat \<Rightarrow> nat) \<Rightarrow> world \<Rightarrow> string" where
  "issued_token alphabet rnd w = fst (Unique_String alphabet rnd 30 (drawn w))"

section \<open>Server.js: the session configuration\<close>

text \<open>
  \<open>App.use(session({ name: process.env.SESSION_NAME,
     secret: process.env.SESSION_SECRET_KEY, resave: true, saveUninitialized: true,
     cookie: { expires: new Date(Date.now() + 1000 * 60 * 60 * 6) },
     store: ... }))\<close>
  The options object is built once, when Server.js is loaded; \<open>now\<close> is what
  \<open>Date.now()\<close> returns then, in milliseconds. \<open>expires\<close> is a point in time in
  milliseconds, as a \<open>Date\<close> holds it. The store is left out.
\<close>

record session_cookie =
  expires :: int

record session_options =
  name :: "string option"
  secret :: "string option"
  resave :: bool
  saveUninitialized :: bool
  cookie :: session_cookie

definition session_configuration :: "(string \<rightharpoonup> string) \<Rightarrow> int \<Rightarrow> session_options" where
  "session_configuration env now =
     \<lparr>name = env ''SESSION_NAME'', secret = env ''SESSION_SECRET_KEY'',
      resave = True, saveUninitialized = True,
      cookie = \<lparr>expires = now + 1000 * 60 * 60 * 6\<rparr>\<rparr>"

section \<open>App/Http/Middleware/Remember\<close>

text \<open>
  What cookie-parser leaves in \<open>signedCookies.Remember\<close>: nothing, a cookie whose
  signature did not verify, or the value of a cookie whose signature did.
\<close>

datatype signed_cookie = NoCookie | BadSignature | Valid string

record request =
  user :: "ObjectId option" \<comment> \<open>the account of the active session, if any\<close>
  remember_cookie :: signed_cookie

text \<open>
  Modelled from the spec: \<open>App/Http/Middleware/Remember\<close> (\<open>Remember.Handle\<close>) is not
  among the sources. The spec (4.3): "on a request lacking an active session but carrying
  a valid signed remember cookie, look up the account whose stored token equals the
  cookie value; if found, establish a session for that account as if freshly
  authenticated; if not found or signature invalid, treat the request as anonymous."
  The result is the request as the next middleware sees it, or an error.
\<close>

definition Remember_Handle :: "(ObjectId \<times> Account) list \<Rightarrow> request \<Rightarrow> error + request" where
  "Remember_Handle accounts req =
     (case user req of
        Some _ \<Rightarrow> Inr req
      | None \<Rightarrow>
          (case remember_cookie req of
             Valid v \<Rightarrow>
               (case find (\<lambda>(i, a). Remember a = Some v) accounts of
                  Some (i, a) \<Rightarrow> Inr (req\<lparr>user := Some i\<rparr>)
                | None \<Rightarrow> Inr req)
           | _ \<Rightarrow> Inr req))"

section \<open>An instance of the bcrypt interface\<close>

text \<open>
  A small instance of the interface, for instantiating the theorems below at concrete
  inputs: salts are two characters, the hash of a string is the salt followed by the
  string, any other data is refused, and a candidate is accepted against the hashes
  that end in it after a two-character salt.
\<close>

definition sample_bcrypt :: bcrypt where
  "sample_bcrypt =
     \<lparr>genSaltSync = (\<lambda>rounds entropy. if even entropy then ''$a'' else ''$b''),
      hashSync = (\<lambda>data salt.
        case data of
          JString p \<Rightarrow>
            if length salt = 2 then Inr (salt @ p) else Inl (Thrown ''Invalid salt'')
        | _ \<Rightarrow> Inl (Thrown ''data and salt arguments required'')),
      compareSync = (\<lambda>candidate h. 2 \<le> length h \<and> drop 2 h = candidate)\<rparr>"

definition sample_account :: Account where
  "sample_account =
     \<lparr>Purchase = [], Roles = [], Name = ''Ada'', Admin = False,
      Email = ''ada@example.org'', Password = ''Secret1'', Remember = None\<rparr>"

definition sample_world :: world where
  "sample_world = \<lparr>account_record = sample_account, logged = [], drawn = 0\<rparr>"

definition sample_response :: response where
  "sample_response = \<lparr>req_secret = Some ''cookie secret'', cookies = []\<rparr>"

section \<open>What is asked of bcrypt\<close>

text \<open>
  Two properties of the library that some theorems below take as hypotheses; nothing
  in the repository establishes them.

  \<open>bcrypt_accepts_own\<close>: a password is accepted against any hash the library
  returned for it.

  \<open>bcrypt_sound\<close>: a candidate is accepted against a string only when that string
  is a hash the library returns for the candidate under some salt. (bcrypt compares by
  hashing the candidate again with the salt it reads off the stored hash.)
\<close>

definition bcrypt_accepts_own :: "bcrypt \<Rightarrow> bool" where
  "bcrypt_accepts_own bc =
     (\<forall>p s h. hashSync bc (JString p) s = Inr h \<longrightarrow> compareSync bc p h)"

definition bcrypt_sound :: "bcrypt \<Rightarrow> bool" where
  "bcrypt_sound bc =
     (\<forall>c h. compareSync bc c h \<longrightarrow> (\<exists>s. hashSync bc (JString c) s = Inr h))"

section \<open>Facts about the definitions\<close>

lemma Unique_String_length: "length (fst (Unique_String alphabet rnd n pos)) = n"
  by (simp add: Unique_String_def)

lemma issued_token_length: "length (issued_token alphabet rnd w) = 30"
  by (simp add: issued_token_def Unique_String_length)

lemma issued_token_positions:
  "issued_token alphabet rnd w =
     map (\<lambda>i. alphabet ! (rnd (drawn w + i) mod length alphabet)) [0..<30]"
  by (simp add: issued_token_def Unique_String_def)

lemma has_secret_Some: "req_secret Response = Some k \<Longrightarrow> k \<noteq> [] \<Longrightarrow> has_secret Response"
  by (simp add: has_secret_def)

lemma SetRemember_signed:
  assumes "has_secret Response"
  shows "SetRemember alphabet rnd result Response w =
     (Inr (Response\<lparr>cookies := cookies Response @
             [(''Remember'', issued_token alphabet rnd w,
               \<lparr>maxAge = 1000 * 60 * 60 * 24 * 30, httpOnly = True, signed = True\<rparr>)]\<rparr>),
      (case result of
         Written \<Rightarrow>
           w\<lparr>drawn := drawn w + 30,
             account_record := (account_record w)\<lparr>Remember := Some (issued_token alphabet rnd w)\<rparr>\<rparr>
       | WriteError e \<Rightarrow>
           w\<lparr>drawn := drawn w + 30, logged := Logger_Analyze ''DBError'' e (logged w)\<rparr>))"
  using assms
  by (cases result)
    (simp_all add: SetRemember_def res_cookie_def issued_token_def Unique_String_def
      split_def Let_def)

lemma SetRemember_unsigned:
  assumes "\<not> has_secret Response"
  shows "SetRemember alphabet rnd result Response w =
     (Inl (Thrown ''cookieParser(secret) required for signed cookies''),
      w\<lparr>drawn := drawn w + 30\<rparr>)"
  using assms
  by (simp add: SetRemember_def res_cookie_def Unique_String_def split_def Let_def)

lemma SetRemember_drawn:
  "drawn (snd (SetRemember alphabet rnd result Response w)) = drawn w + 30"
  by (cases "has_secret Response"; cases result)
    (simp_all add: SetRemember_signed SetRemember_unsigned)

lemma SetRemember_failed:
  "account_record (snd (SetRemember alphabet rnd (WriteError e) Response w)) = account_record w"
  by (cases "has_secret Response") (simp_all add: SetRemember_signed SetRemember_unsigned)

lemma sample_response_has_secret: "has_secret sample_response"
  by (simp add: has_secret_def sample_response_def)

lemma sample_world_record: "account_record sample_world = sample_account"
  by (simp add: sample_world_def)

lemma first_token: "issued_token ''ab'' (\<lambda>i. i div 30) sample_world = replicate 30 (CHR ''a'')"
  by code_simp

lemma second_token:
  "issued_token ''ab'' (\<lambda>i. i div 30)
     (snd (SetRemember ''ab'' (\<lambda>i. i div 30) Written sample_response sample_world)) =
   replicate 30 (CHR ''b'')"
  by code_simp

lemma sample_hash_first:
  "hashSync sample_bcrypt (JString (Password sample_account)) (genSaltSync sample_bcrypt 15 0) =
     Inr ''$aSecret1''"
  by (simp add: sample_bcrypt_def sample_account_def)

lemma sample_hash_second:
  "hashSync sample_bcrypt (JString ''$aSecret1'') (genSaltSync sample_bcrypt 15 1) =
     Inr ''$b$aSecret1''"
  by (simp add: sample_bcrypt_def)


lemma sample_no_collision:
  "hashSync sample_bcrypt (JString (Password sample_account)) s \<noteq> Inr ''$b$aSecret1''"
proof
  assume "hashSync sample_bcrypt (JString (Password sample_account)) s = Inr ''$b$aSecret1''"
  then have len: "length s = 2" and eq: "s @ ''Secret1'' = ''$b$aSecret1''"
    by (simp_all add: sample_bcrypt_def sample_account_def split: if_splits)
  from eq have "length (s @ ''Secret1'') = length ''$b$aSecret1''"
    by (rule arg_cong)
  with len show False by simp
qed

lemma sample_bcrypt_accepts_own: "bcrypt_accepts_own sample_bcrypt"
  by (auto simp: bcrypt_accepts_own_def sample_bcrypt_def split: if_splits)

lemma sample_bcrypt_sound: "bcrypt_sound sample_bcrypt"
  unfolding bcrypt_sound_def
proof (intro allI impI)
  fix c h
  assume "compareSync sample_bcrypt c h"
  then have "2 \<le> length h" and "drop 2 h = c"
    by (simp_all add: sample_bcrypt_def)
  then have "take 2 h @ c = h" and "length (take 2 h) = 2"
    by (auto simp: append_take_drop_id)
  then have "hashSync sample_bcrypt (JString c) (take 2 h) = Inr h"
    by (simp add: sample_bcrypt_def)
  then show "\<exists>s. hashSync sample_bcrypt (JString c) s = Inr h" ..
qed

section \<open>Password verification\<close>

text \<open>
  What the code fixes about verifying a password. When bcrypt returns the hash \<open>h\<close>
  for the password given at creation, the save writes \<open>h\<close> and \<open>ComparePassword\<close> on
  the written document hands the candidate and \<open>h\<close> to \<open>compareSync\<close>. If bcrypt
  accepts a password against its own hash, the creation password is accepted; if bcrypt
  is sound, a candidate is accepted only when \<open>h\<close> is also a hash of that candidate.
  Whether \<open>h\<close> is a hash of no other candidate is a matter of bcrypt alone.
\<close>

theorem ComparePassword_after_save:
  assumes "hashSync bc (JString (Password this)) (genSaltSync bc 15 e) = Inr h"
    and "bcrypt_accepts_own bc" and "bcrypt_sound bc"
  shows "pre_save bc e this = Inr (this\<lparr>Password := h\<rparr>)
         \<and> ComparePassword bc (this\<lparr>Password := h\<rparr>) (Password this)
         \<and> (ComparePassword bc (this\<lparr>Password := h\<rparr>) candidate \<longrightarrow>
              (\<exists>s. hashSync bc (JString candidate) s = Inr h))"
proof -
  from assms(1) have "pre_save bc e this = Inr (this\<lparr>Password := h\<rparr>)"
    by (simp add: pre_save_def)
  moreover from assms(1,2) have "compareSync bc (Password this) h"
    unfolding bcrypt_accepts_own_def by blast
  moreover have "\<exists>s. hashSync bc (JString candidate) s = Inr h" if "compareSync bc candidate h"
    using that assms(3) unfolding bcrypt_sound_def by blast
  ultimately show ?thesis
    by (simp add: ComparePassword_def)
qed

theorem ComparePassword_after_save_witness:
  "pre_save sample_bcrypt 0 sample_account = Inr (sample_account\<lparr>Password := ''$aSecret1''\<rparr>)
   \<and> ComparePassword sample_bcrypt (sample_account\<lparr>Password := ''$aSecret1''\<rparr>) ''Secret1''"
  using ComparePassword_after_save
    [OF sample_hash_first sample_bcrypt_accepts_own sample_bcrypt_sound]
  by (simp add: sample_account_def)

section \<open>Remember tokens\<close>

text \<open>
  C2, as amended. \<open>SetRemember\<close> is called twice on one account, the second call in the
  world the first one left, on a response whose request has a cookie secret (so the call
  gets as far as sending its update). When the update of the second call is written, the
  stored \<open>Remember\<close> field is the token of the second call, and the token of the first
  call no longer equals it provided the two tokens differ. When the update of the second
  call fails, the stored record is the one the first call left.
\<close>

theorem SetRemember_twice_latest_token:
  assumes "st1 = SetRemember alphabet rnd result Response w"
    and "st2 = SetRemember alphabet rnd Written Response' (snd st1)"
    and "has_secret Response'"
  shows "Remember (account_record (snd st2)) = Some (issued_token alphabet rnd (snd st1))
         \<and> (issued_token alphabet rnd w \<noteq> issued_token alphabet rnd (snd st1) \<longrightarrow>
              Remember (account_record (snd st2)) \<noteq> Some (issued_token alphabet rnd w))
         \<and> account_record (snd (SetRemember alphabet rnd (WriteError e) Response' (snd st1))) =
             account_record (snd st1)"
  using assms by (auto simp: SetRemember_signed SetRemember_failed)

text \<open>
  The theorem on an account with no token, the alphabet \<open>ab\<close> and a random source whose
  first thirty numbers pick \<open>a\<close> and next thirty pick \<open>b\<close>: the two tokens differ and
  only the second is stored.
\<close>

theorem SetRemember_twice_latest_token_witness:
  "issued_token ''ab'' (\<lambda>i. i div 30) sample_world \<noteq>
     issued_token ''ab'' (\<lambda>i. i div 30)
       (snd (SetRemember ''ab'' (\<lambda>i. i div 30) Written sample_response sample_world))
   \<and> Remember (account_record (snd (SetRemember ''ab'' (\<lambda>i. i div 30) Written sample_response
        (snd (SetRemember ''ab'' (\<lambda>i. i div 30) Written sample_response sample_world))))) =
       Some (replicate 30 (CHR ''b''))
   \<and> Remember (account_record (snd (SetRemember ''ab'' (\<lambda>i. i div 30) Written sample_response
        (snd (SetRemember ''ab'' (\<lambda>i. i div 30) Written sample_response sample_world))))) \<noteq>
       Some (replicate 30 (CHR ''a''))"
  using SetRemember_twice_latest_token
    [where alphabet = "''ab''" and rnd = "\<lambda>i. i div 30" and result = Written
       and Response = sample_response and w = sample_world and Response' = sample_response,
     OF refl refl sample_response_has_secret]
    first_token second_token
  by simp

text \<open>
  The claim as it was stated fails when the second update is not written: the first call
  stores thirty \<open>a\<close>, the second call generates thirty \<open>b\<close> and its update fails, and
  the stored token is still the first one.
\<close>

theorem SetRemember_twice_counterexample:
  "issued_token ''ab'' (\<lambda>i. i div 30) sample_world = replicate 30 (CHR ''a'')
   \<and> issued_token ''ab'' (\<lambda>i. i div 30)
       (snd (SetRemember ''ab'' (\<lambda>i. i div 30) Written sample_response sample_world)) =
       replicate 30 (CHR ''b'')
   \<and> Remember (account_record (snd (SetRemember ''ab'' (\<lambda>i. i div 30) (WriteError ''write failed'')
        sample_response
        (snd (SetRemember ''ab'' (\<lambda>i. i div 30) Written sample_response sample_world))))) =
       Some (replicate 30 (CHR ''a''))"
proof -
  have "account_record (snd (SetRemember ''ab'' (\<lambda>i. i div 30) Written sample_response sample_world)) =
      sample_account\<lparr>Remember := Some (replicate 30 (CHR ''a''))\<rparr>"
    using first_token
    by (simp add: SetRemember_signed sample_response_has_secret sample_world_record)
  then show ?thesis
    by (simp add: SetRemember_failed first_token second_token)
qed

text \<open>
  Nothing in \<open>SetRemember\<close> keeps two calls from generating the same token: with a
  random source that repeats itself, the second token is the first one again.
\<close>

lemma SetRemember_twice_same_token:
  "issued_token ''ab'' (\<lambda>i. 0)
     (snd (SetRemember ''ab'' (\<lambda>i. 0) Written sample_response sample_world)) =
   issued_token ''ab'' (\<lambda>i. 0) sample_world"
  by code_simp

text \<open>
  C3, as amended. Every call of \<open>SetRemember\<close> generates a token of exactly 30
  characters from the next 30 numbers of the random source, and leaves the source
  positioned after them, so the following call reads 30 other numbers. On a response
  whose request has a cookie secret the call, whatever its update reports, adds to the
  response one cookie named \<open>Remember\<close> whose value is that token, with \<open>maxAge\<close>
  2592000000 ms, \<open>httpOnly\<close> and \<open>signed\<close>. On a response with no secret the call
  throws: no cookie is set, no update is sent.
\<close>

theorem SetRemember_cookie:
  "length (issued_token alphabet rnd w) = 30
   \<and> issued_token alphabet rnd w =
       map (\<lambda>i. alphabet ! (rnd (drawn w + i) mod length alphabet)) [0..<30]
   \<and> issued_token alphabet rnd (snd (SetRemember alphabet rnd result Response w)) =
       map (\<lambda>i. alphabet ! (rnd (drawn w + 30 + i) mod length alphabet)) [0..<30]
   \<and> (has_secret Response \<longrightarrow>
        fst (SetRemember alphabet rnd result Response w) =
          Inr (Response\<lparr>cookies := cookies Response @
                 [(''Remember'', issued_token alphabet rnd w,
                   \<lparr>maxAge = 2592000000, httpOnly = True, signed = True\<rparr>)]\<rparr>))
   \<and> (\<not> has_secret Response \<longrightarrow>
        SetRemember alphabet rnd result Response w =
          (Inl (Thrown ''cookieParser(secret) required for signed cookies''),
           w\<lparr>drawn := drawn w + 30\<rparr>))"
  by (simp add: issued_token_length issued_token_positions SetRemember_drawn
      SetRemember_signed SetRemember_unsigned)

theorem SetRemember_cookie_witness:
  "fst (SetRemember ''ab'' (\<lambda>i. i div 30) Written sample_response sample_world) =
     Inr \<lparr>req_secret = Some ''cookie secret'',
          cookies = [(''Remember'', replicate 30 (CHR ''a''),
            \<lparr>maxAge = 2592000000, httpOnly = True, signed = True\<rparr>)]\<rparr>
   \<and> length (replicate 30 (CHR ''a'')) = 30"
  using SetRemember_cookie [of "''ab''" "\<lambda>i. i div 30" sample_world Written sample_response]
    sample_response_has_secret first_token
  by (simp add: sample_response_def)

text \<open>
  The claim as it was stated fails on a response whose request has no cookie secret:
  the call throws, and neither a cookie nor a token is stored.
\<close>

theorem SetRemember_cookie_counterexample:
  "SetRemember ''ab'' (\<lambda>i. i div 30) Written \<lparr>req_secret = None, cookies = []\<rparr> sample_world =
     (Inl (Thrown ''cookieParser(secret) required for signed cookies''),
      \<lparr>account_record = sample_account, logged = [], drawn = 30\<rparr>)"
  by (simp add: SetRemember_unsigned has_secret_def sample_world_def)

text \<open>
  C6. On a response whose request has a cookie secret, when the update of
  \<open>SetRemember\<close> fails the call still returns a response and not an error; that
  response is the one given with the \<open>Remember\<close> cookie added, the same as when the
  update is written; the error goes to the log under \<open>DBError\<close> and nowhere else; the
  stored record is unchanged.
\<close>

theorem SetRemember_write_failure:
  assumes "has_secret Response"
  shows "fst (SetRemember alphabet rnd (WriteError e) Response w) =
           Inr (Response\<lparr>cookies := cookies Response @
                  [(''Remember'', issued_token alphabet rnd w,
                    \<lparr>maxAge = 2592000000, httpOnly = True, signed = True\<rparr>)]\<rparr>)
         \<and> fst (SetRemember alphabet rnd (WriteError e) Response w) =
             fst (SetRemember alphabet rnd Written Response w)
         \<and> snd (SetRemember alphabet rnd (WriteError e) Response w) =
             w\<lparr>drawn := drawn w + 30, logged := logged w @ [(''DBError'', e)]\<rparr>"
  using assms by (simp add: SetRemember_signed Logger_Analyze_def)

theorem SetRemember_write_failure_witness:
  "SetRemember ''ab'' (\<lambda>i. i div 30) (WriteError ''write failed'') sample_response sample_world =
     (Inr \<lparr>req_secret = Some ''cookie secret'',
           cookies = [(''Remember'', replicate 30 (CHR ''a''),
             \<lparr>maxAge = 2592000000, httpOnly = True, signed = True\<rparr>)]\<rparr>,
      \<lparr>account_record = sample_account, logged = [(''DBError'', ''write failed'')], drawn = 30\<rparr>)"
  using SetRemember_write_failure
    [OF sample_response_has_secret, of "''ab''" "\<lambda>i. i div 30" "''write failed''" sample_world]
    first_token
  by (simp add: prod_eq_iff sample_response_def sample_world_def)

section \<open>Stored passwords\<close>

text \<open>
  When bcrypt throws, the hook throws and no document or update goes on to be written.
\<close>

lemma pre_save_thrown:
  "hashSync bc (JString (Password this)) (genSaltSync bc 15 e) = Inl err \<Longrightarrow>
   pre_save bc e this = Inl err"
  by (simp add: pre_save_def)



text \<open>
  C8. The save hook hashes whatever \<open>Password\<close> holds, on every save: it has no guard
  on whether the field changed. When bcrypt returns \<open>h1\<close> for the plaintext and \<open>h2\<close>
  for \<open>h1\<close>, the first save writes \<open>h1\<close> and a save of the written document writes
  \<open>h2\<close>, the hash of the hash. If bcrypt is sound and \<open>h2\<close> is not also a hash of
  the plaintext, \<open>ComparePassword\<close> then refuses the original plaintext.
\<close>

theorem save_twice_hashes_the_hash:
  assumes "hashSync bc (JString (Password this)) (genSaltSync bc 15 e1) = Inr h1"
    and "hashSync bc (JString h1) (genSaltSync bc 15 e2) = Inr h2"
    and "bcrypt_sound bc"
    and "\<And>s. hashSync bc (JString (Password this)) s \<noteq> Inr h2"
  shows "pre_save bc e1 this = Inr (this\<lparr>Password := h1\<rparr>)
         \<and> pre_save bc e2 (this\<lparr>Password := h1\<rparr>) = Inr (this\<lparr>Password := h2\<rparr>)
         \<and> \<not> ComparePassword bc (this\<lparr>Password := h2\<rparr>) (Password this)"
proof -
  from assms(1) have "pre_save bc e1 this = Inr (this\<lparr>Password := h1\<rparr>)"
    by (simp add: pre_save_def)
  moreover from assms(2) have
    "pre_save bc e2 (this\<lparr>Password := h1\<rparr>) = Inr (this\<lparr>Password := h2\<rparr>)"
    by (simp add: pre_save_def)
  moreover have "\<not> compareSync bc (Password this) h2"
  proof
    assume "compareSync bc (Password this) h2"
    with assms(3) obtain s where "hashSync bc (JString (Password this)) s = Inr h2"
      unfolding bcrypt_sound_def by blast
    with assms(4) show False by simp
  qed
  ultimately show ?thesis by (simp add: ComparePassword_def)
qed

theorem save_twice_hashes_the_hash_witness:
  "pre_save sample_bcrypt 0 sample_account = Inr (sample_account\<lparr>Password := ''$aSecret1''\<rparr>)
   \<and> pre_save sample_bcrypt 1 (sample_account\<lparr>Password := ''$aSecret1''\<rparr>) =
       Inr (sample_account\<lparr>Password := ''$b$aSecret1''\<rparr>)
   \<and> \<not> ComparePassword sample_bcrypt (sample_account\<lparr>Password := ''$b$aSecret1''\<rparr>) ''Secret1''"
  using save_twice_hashes_the_hash
    [OF sample_hash_first sample_hash_second sample_bcrypt_sound sample_no_collision]
  by (simp add: sample_account_def)

text \<open>
  C9. The \<open>findOneAndUpdate\<close> hook reads \<open>$set.Password\<close> with no guard. An update
  with no \<open>$set\<close> makes that read throw a TypeError; an update whose \<open>$set\<close> has no
  \<open>Password\<close> hands \<open>undefined\<close> to \<open>hashSync\<close>. Provided bcrypt refuses
  \<open>undefined\<close> as data, the hook fails for every update that does not set
  \<open>Password\<close>, so only updates that set it pass the hook.
\<close>

theorem update_without_password_fails:
  assumes "\<And>salt. isl (hashSync bc JUndefined salt)"
    and "dollar_set upd = None \<or>
         (\<exists>s. dollar_set upd = Some s \<and> property s ''Password'' = JUndefined)"
  shows "isl (pre_findOneAndUpdate bc e upd)"
proof -
  have "isl (hashSync bc JUndefined (genSaltSync bc 15 e))"
    by (rule assms(1))
  with assms(2) show ?thesis
    by (auto simp: pre_findOneAndUpdate_def split: sum.splits)
qed

theorem update_without_password_fails_witness:
  "pre_findOneAndUpdate sample_bcrypt 0 \<lparr>dollar_set = Some [''Name'' \<mapsto> JString ''Grace'']\<rparr> =
     Inl (Thrown ''data and salt arguments required'')
   \<and> pre_findOneAndUpdate sample_bcrypt 0 \<lparr>dollar_set = None\<rparr> =
     Inl (TypeError ''Cannot read property Password of undefined'')"
  using
    update_without_password_fails
      [of sample_bcrypt "\<lparr>dollar_set = Some [''Name'' \<mapsto> JString ''Grace'']\<rparr>" 0]
    update_without_password_fails [of sample_bcrypt "\<lparr>dollar_set = None\<rparr>" 0]
  by (simp add: pre_findOneAndUpdate_def sample_bcrypt_def property_def)

section \<open>Requests with a remember cookie\<close>

text \<open>
  C5. A request with no active session whose remember cookie has a bad signature, or a
  good signature and a value that no account stores as its token, goes on unchanged and
  anonymous; the middleware raises no error.
\<close>

theorem Remember_no_match_anonymous:
  assumes "user req = None"
    and "remember_cookie req = BadSignature \<or>
         (\<exists>v. remember_cookie req = Valid v \<and> (\<forall>(i, a) \<in> set accounts. Remember a \<noteq> Some v))"
  shows "Remember_Handle accounts req = Inr req \<and> user req = None"
proof -
  have "find (\<lambda>(i, a). Remember a = Some v) accounts = None"
    if "\<forall>(i, a) \<in> set accounts. Remember a \<noteq> Some v" for v
    using that by (auto simp: find_None_iff)
  with assms show ?thesis
    by (auto simp: Remember_Handle_def split: signed_cookie.splits)
qed

theorem Remember_no_match_anonymous_witness:
  "Remember_Handle [(1, sample_account\<lparr>Remember := Some ''tokenA''\<rparr>)]
     \<lparr>user = None, remember_cookie = Valid ''tokenB''\<rparr> =
     Inr \<lparr>user = None, remember_cookie = Valid ''tokenB''\<rparr>
   \<and> Remember_Handle [(1, sample_account\<lparr>Remember := Some ''tokenA''\<rparr>)]
     \<lparr>user = None, remember_cookie = BadSignature\<rparr> =
     Inr \<lparr>user = None, remember_cookie = BadSignature\<rparr>"
  using
    Remember_no_match_anonymous [of "\<lparr>user = None, remember_cookie = Valid ''tokenB''\<rparr>"
      "[(1, sample_account\<lparr>Remember := Some ''tokenA''\<rparr>)]"]
    Remember_no_match_anonymous [of "\<lparr>user = None, remember_cookie = BadSignature\<rparr>"
      "[(1, sample_account\<lparr>Remember := Some ''tokenA''\<rparr>)]"]
  by simp

section \<open>The session cookie\<close>

text \<open>
  The configured expiry is one point in time, six hours after Server.js was loaded; it
  does not move with the time at which a session is created.
\<close>

lemma session_expiry_from_load:
  "expires (cookie (session_configuration env now)) = now + 6 * (60 * 60 * 1000)"
  by (simp add: session_configuration_def)

text \<open>
  C7. With Server.js loaded at time 0, the configured expiry is 21600000 ms. A session
  cookie created one hour later, at 3600000 ms, is five hours from that expiry, not six.
\<close>

theorem session_expiry_fixed_at_load:
  "expires (cookie (session_configuration env 0)) = 21600000
   \<and> expires (cookie (session_configuration env 0)) - 3600000 = 5 * (60 * 60 * 1000)"
  by (simp add: session_configuration_def)

section \<open>Account methods\<close>

text \<open>
  C10. \<open>IsVip\<close> answers true for every account: its body is \<open>return true\<close> and reads
  no field of the document.
\<close>

theorem IsVip_always: "IsVip this"
  by (simp add: IsVip_def)

end
